theory Spec2Isabelle
  imports Main "HOL-Library.AList"
begin

section \<open>Values shared by the components\<close>

text \<open>
  The numeric enum \<^verbatim>\<open>TaskStatus\<close>, as declared in the graph helper
  (\<^verbatim>\<open>notStarted, inProgress, completed, deferred, waitingOnOthers\<close>). The To-Do component imports
  an enum of the same name from \<^verbatim>\<open>./graph.todo\<close>; the members and their order are those of the
  declaration that is available and of the data model of the specification.
\<close>

datatype TaskStatus = notStarted | inProgress | completed | deferred | waitingOnOthers

text \<open>
  The values a \<^verbatim>\<open>status\<close> property holds at run time: the string of the JSON document the
  gateway delivered, or the number of an enum member that the component assigned itself.
\<close>

datatype js_value = JNumber nat | JString string | JUndefined

fun TaskStatus_index :: "TaskStatus \<Rightarrow> nat" where
  "TaskStatus_index notStarted = 0"
| "TaskStatus_index inProgress = 1"
| "TaskStatus_index completed = 2"
| "TaskStatus_index deferred = 3"
| "TaskStatus_index waitingOnOthers = 4"

text \<open>An enum member used as a value, \<^verbatim>\<open>TaskStatus.completed\<close>, is its number.\<close>

definition TaskStatus_value :: "TaskStatus \<Rightarrow> js_value" where
  "TaskStatus_value s = JNumber (TaskStatus_index s)"

text \<open>
  The enum object of a numeric TypeScript enum maps each member name to its number and each
  number back to the member name. \<^verbatim>\<open>(TaskStatus as any)[k]\<close> reads the property whose key is
  \<^verbatim>\<open>k\<close> turned into a string; a key that is no property reads as \<^verbatim>\<open>undefined\<close>. (Properties
  inherited from the object prototype are functions; the only use of the lookup compares
  its result with a number, so they are read as \<^verbatim>\<open>undefined\<close> here.)
\<close>

definition TaskStatus_property :: "string \<Rightarrow> js_value" where
  "TaskStatus_property k =
     (if k = ''notStarted'' then JNumber 0
      else if k = ''inProgress'' then JNumber 1
      else if k = ''completed'' then JNumber 2
      else if k = ''deferred'' then JNumber 3
      else if k = ''waitingOnOthers'' then JNumber 4
      else if k = ''0'' then JString ''notStarted''
      else if k = ''1'' then JString ''inProgress''
      else if k = ''2'' then JString ''completed''
      else if k = ''3'' then JString ''deferred''
      else if k = ''4'' then JString ''waitingOnOthers''
      else JUndefined)"

fun TaskStatus_lookup :: "js_value \<Rightarrow> js_value" where
  "TaskStatus_lookup (JString k) = TaskStatus_property k"
| "TaskStatus_lookup (JNumber n) =
     (if n = 0 then TaskStatus_property ''0''
      else if n = 1 then TaskStatus_property ''1''
      else if n = 2 then TaskStatus_property ''2''
      else if n = 3 then TaskStatus_property ''3''
      else if n = 4 then TaskStatus_property ''4''
      else JUndefined)"
| "TaskStatus_lookup JUndefined = JUndefined"

text \<open>
  Modelled from the spec: the interfaces \<^verbatim>\<open>TodoTask\<close> and \<^verbatim>\<open>TodoTaskList\<close> of
  \<^verbatim>\<open>./graph.todo\<close> are not among the sources. A task has an identifier, a title, a status and
  an optional due timestamp; a container has an identifier and a display name. These are
  the properties the component reads (\<^verbatim>\<open>task.id\<close>, \<^verbatim>\<open>task.title\<close>, \<^verbatim>\<open>task.status\<close>,
  \<^verbatim>\<open>task.dueDateTime\<close>, \<^verbatim>\<open>list.id\<close>, \<^verbatim>\<open>list.displayName\<close>).
\<close>

record TodoTask =
  task_id :: string
  title :: string
  status :: js_value
  dueDateTime :: "string option"

record TodoTaskList =
  list_id :: string
  displayName :: string

text \<open>
  A rejected promise or a thrown exception: \<open>TypeError\<close> for a property read on
  \<^verbatim>\<open>null\<close>, \<open>GatewayError\<close> for a gateway call that fails.
\<close>

datatype error = TypeError | GatewayError

text \<open>What an awaited gateway call yields: the rejection or the value.\<close>

type_synonym 'a response = "error + 'a"

text \<open>What a run of an operation leaves: the state, the calls it made, and the rejection if any.\<close>

record ('s, 'e) run =
  final :: 's
  emitted :: "'e list"
  failure :: "error option"

section \<open>The To-Do component\<close>

text \<open>
  Task objects live in a store and are handled by reference: the array \<^verbatim>\<open>_tasks\<close> and the
  click handlers of the rendered rows hold the same objects, and \<^verbatim>\<open>updateTaskStatus\<close> writes
  into the object it is given.
\<close>

type_synonym ref = nat

text \<open>
  The fields of \<^verbatim>\<open>MgtTodo\<close>, without the leading underscore of the private ones
  (\<^verbatim>\<open>_lists\<close> is \<open>todoLists\<close>), followed by the object store. \<^verbatim>\<open>_tasks\<close> is \<^verbatim>\<open>null\<close> while a
  list is being loaded; \<^verbatim>\<open>_currentList\<close> is \<^verbatim>\<open>null\<close> until a list is chosen. The constructor
  does not assign \<^verbatim>\<open>_isNewTaskVisible\<close>, and its setter compares with \<^verbatim>\<open>!==\<close>: the field is
  \<open>None\<close> while \<^verbatim>\<open>undefined\<close>. The other flags are only ever tested for truth, where
  \<^verbatim>\<open>undefined\<close> counts as false: they are booleans. The graph client and the media query take
  no part in the operations below.
\<close>

record MgtTodo =
  readOnly :: bool
  targetId :: "string option"
  initialId :: "string option"
  hideHeader :: bool
  hideOptions :: bool
  taskFilter :: "(TodoTask \<Rightarrow> bool) option"
  isNewTaskVisible :: "bool option"
  newTaskBeingAdded :: bool
  todoLists :: "TodoTaskList list"
  tasks :: "ref list option"
  hiddenTasks :: "string list"
  loadingTasks :: "string list"
  hasDoneInitialLoad :: bool
  currentList :: "TodoTaskList option"
  isLoadingTasks :: bool
  newTaskName :: string
  newTaskDueDate :: "string option"
  newTaskListId :: string
  heap :: "ref \<Rightarrow> TodoTask"
  nextRef :: ref

text \<open>
  What the component asks of its surroundings: the three gateway calls of
  \<^verbatim>\<open>./graph.todo\<close> with their arguments, and \<^verbatim>\<open>requestStateUpdate\<close> and \<^verbatim>\<open>fireCustomEvent\<close>
  of the base component. None is among the sources; a call is recorded, and the answer of
  a gateway call is an argument of the operation that awaits it.
\<close>

datatype effect =
    UpdateTodoTask string string TodoTask
  | DeleteTodoTask string string
  | CreateTodoTask string string
  | RequestStateUpdate
  | FireCustomEvent string ref

record Event =
  propagationStopped :: bool
  defaultPrevented :: bool

text \<open>A new object enters the store at the next free reference.\<close>

definition alloc :: "MgtTodo \<Rightarrow> TodoTask \<Rightarrow> ref \<times> MgtTodo" where
  "alloc st t = (nextRef st, st\<lparr>heap := (heap st)(nextRef st := t), nextRef := Suc (nextRef st)\<rparr>)"

text \<open>\<^verbatim>\<open>Array.prototype.findIndex\<close>: the first index whose element satisfies, or \<open>-1\<close>.\<close>

fun findIndex :: "('a \<Rightarrow> bool) \<Rightarrow> 'a list \<Rightarrow> int" where
  "findIndex p [] = - 1"
| "findIndex p (x # xs) =
     (if p x then 0 else (let i = findIndex p xs in if i < 0 then - 1 else i + 1))"

text \<open>
  \<^verbatim>\<open>xs[i] = v\<close> for the index \<^verbatim>\<open>findIndex\<close> returned: an index of the array replaces the
  element; \<open>-1\<close> sets a property named \<^verbatim>\<open>"-1"\<close> and leaves every element and the length as
  they are.
\<close>

definition array_store :: "'a list \<Rightarrow> int \<Rightarrow> 'a \<Rightarrow> 'a list" where
  "array_store xs i v = (if 0 \<le> i \<and> i < int (length xs) then xs[nat i := v] else xs)"

text \<open>The constructor.\<close>

definition MgtTodo_new :: "MgtTodo" where
  "MgtTodo_new =
     \<lparr> readOnly = False, targetId = None, initialId = None, hideHeader = False,
       hideOptions = False, taskFilter = None, isNewTaskVisible = None,
       newTaskBeingAdded = False, todoLists = [], tasks = Some [], hiddenTasks = [],
       loadingTasks = [], hasDoneInitialLoad = False, currentList = None,
       isLoadingTasks = False, newTaskName = [], newTaskDueDate = None,
       newTaskListId = [],
       heap = (\<lambda>_. \<lparr>task_id = [], title = [], status = JUndefined, dueDateTime = None\<rparr>),
       nextRef = 0 \<rparr>"

definition showNewTaskPanel :: "MgtTodo \<Rightarrow> MgtTodo" where
  "showNewTaskPanel st = st\<lparr>isNewTaskVisible := Some True\<rparr>"

definition hideNewTaskPanel :: "MgtTodo \<Rightarrow> MgtTodo" where
  "hideNewTaskPanel st =
     st\<lparr>isNewTaskVisible := Some False, newTaskDueDate := None, newTaskName := []\<rparr>"

text \<open>The setter of the public property \<^verbatim>\<open>isNewTaskVisible\<close>.\<close>

definition set_isNewTaskVisible :: "MgtTodo \<Rightarrow> bool \<Rightarrow> MgtTodo" where
  "set_isNewTaskVisible st v =
     (if Some v \<noteq> isNewTaskVisible st
      then (if v then showNewTaskPanel st else hideNewTaskPanel st)
      else st)"

subsection \<open>Rendering\<close>




subsection \<open>Operations\<close>

text \<open>
  \<^verbatim>\<open>loadTaskList\<close>, up to its \<^verbatim>\<open>await\<close> and from the answer on. A rejected call leaves the
  state of the first part.
\<close>

definition loadTaskList_begin :: "MgtTodo \<Rightarrow> TodoTaskList \<Rightarrow> MgtTodo" where
  "loadTaskList_begin st l = st\<lparr>isLoadingTasks := True, tasks := None, currentList := Some l\<rparr>"

fun alloc_all :: "MgtTodo \<Rightarrow> TodoTask list \<Rightarrow> ref list \<times> MgtTodo" where
  "alloc_all st [] = ([], st)"
| "alloc_all st (t # ts) =
     (let (r, st1) = alloc st t; (rs, st2) = alloc_all st1 ts in (r # rs, st2))"

definition loadTaskList_resume :: "MgtTodo \<Rightarrow> TodoTask list response \<Rightarrow> MgtTodo" where
  "loadTaskList_resume st resp =
     (case resp of
        Inl e \<Rightarrow> st
      | Inr ts \<Rightarrow> (let (rs, st1) = alloc_all st ts in st1\<lparr>tasks := Some rs, isLoadingTasks := False\<rparr>))"

text \<open>
  \<^verbatim>\<open>updateTaskStatus\<close> up to its \<^verbatim>\<open>await\<close>: the id joins \<^verbatim>\<open>_loadingTasks\<close>, the status is
  written into the task object, and the gateway is called with the object as it then is.
  Reading \<^verbatim>\<open>this._currentList.id\<close> on \<^verbatim>\<open>null\<close> rejects the promise before any call.
\<close>

definition updateTaskStatus_begin ::
  "MgtTodo \<Rightarrow> ref \<Rightarrow> TaskStatus \<Rightarrow> (MgtTodo, effect) run" where
  "updateTaskStatus_begin st task taskStatus =
     (let st1 = st\<lparr>loadingTasks := loadingTasks st @ [task_id (heap st task)]\<rparr>;
          st2 = st1\<lparr>heap := (heap st1)(task := (heap st1 task)\<lparr>status := TaskStatus_value taskStatus\<rparr>)\<rparr>
      in case currentList st2 of
           None \<Rightarrow> \<lparr>final = st2, emitted = [], failure = Some TypeError\<rparr>
         | Some l \<Rightarrow>
             \<lparr>final = st2,
              emitted = [UpdateTodoTask (list_id l) (task_id (heap st2 task)) (heap st2 task)],
              failure = None\<rparr>)"

text \<open>
  \<^verbatim>\<open>updateTaskStatus\<close> from the answer on. A rejection ends the function where it awaits.
  Otherwise \<^verbatim>\<open>task\<close> now names the returned object: it replaces the element with its id,
  and its id is filtered out of \<^verbatim>\<open>_loadingTasks\<close>.
\<close>

definition updateTaskStatus_resume ::
  "MgtTodo \<Rightarrow> TodoTask response \<Rightarrow> (MgtTodo, effect) run" where
  "updateTaskStatus_resume st resp =
     (case resp of
        Inl e \<Rightarrow> \<lparr>final = st, emitted = [], failure = Some e\<rparr>
      | Inr t \<Rightarrow>
          (let (task, st1) = alloc st t
           in case tasks st1 of
                None \<Rightarrow> \<lparr>final = st1, emitted = [], failure = Some TypeError\<rparr>
              | Some ts \<Rightarrow>
                  (let taskIndex = findIndex (\<lambda>r. task_id (heap st1 r) = task_id (heap st1 task)) ts;
                       st2 = st1\<lparr>tasks := Some (array_store ts taskIndex task)\<rparr>;
                       st3 = st2\<lparr>loadingTasks :=
                                   filter (\<lambda>i. i \<noteq> task_id (heap st2 task)) (loadingTasks st2)\<rparr>
                   in \<lparr>final = st3, emitted = [RequestStateUpdate], failure = None\<rparr>)))"

text \<open>The whole of \<^verbatim>\<open>updateTaskStatus\<close>, with nothing else running while it awaits.\<close>

definition updateTaskStatus ::
  "MgtTodo \<Rightarrow> ref \<Rightarrow> TaskStatus \<Rightarrow> TodoTask response \<Rightarrow> (MgtTodo, effect) run" where
  "updateTaskStatus st task taskStatus resp =
     (let b = updateTaskStatus_begin st task taskStatus
      in case failure b of
           Some e \<Rightarrow> b
         | None \<Rightarrow>
             (let r = updateTaskStatus_resume (final b) resp
              in r\<lparr>emitted := emitted b @ emitted r\<rparr>))"

text \<open>
  \<^verbatim>\<open>removeTask\<close> up to its \<^verbatim>\<open>await\<close>: the id joins \<^verbatim>\<open>_hiddenTasks\<close> and the deletion is
  sent. Reading \<^verbatim>\<open>this._currentList.id\<close> on \<^verbatim>\<open>null\<close> rejects the promise before any call.
\<close>

definition removeTask_begin :: "MgtTodo \<Rightarrow> string \<Rightarrow> (MgtTodo, effect) run" where
  "removeTask_begin st taskId =
     (let st1 = st\<lparr>hiddenTasks := hiddenTasks st @ [taskId]\<rparr>
      in case currentList st1 of
           None \<Rightarrow> \<lparr>final = st1, emitted = [], failure = Some TypeError\<rparr>
         | Some l \<Rightarrow> \<lparr>final = st1, emitted = [DeleteTodoTask (list_id l) taskId], failure = None\<rparr>)"

text \<open>
  \<^verbatim>\<open>removeTask\<close> from the answer on; the gateway answers a deletion with no value. A
  rejection ends the function where it awaits; \<^verbatim>\<open>this._tasks.filter\<close> on \<^verbatim>\<open>null\<close> throws.
\<close>

definition removeTask_resume ::
  "MgtTodo \<Rightarrow> string \<Rightarrow> unit response \<Rightarrow> (MgtTodo, effect) run" where
  "removeTask_resume st taskId resp =
     (case resp of
        Inl e \<Rightarrow> \<lparr>final = st, emitted = [], failure = Some e\<rparr>
      | Inr u \<Rightarrow>
          (case tasks st of
             None \<Rightarrow> \<lparr>final = st, emitted = [], failure = Some TypeError\<rparr>
           | Some ts \<Rightarrow>
               (let st2 = st\<lparr>tasks := Some (filter (\<lambda>r. task_id (heap st r) \<noteq> taskId) ts)\<rparr>;
                    st3 = st2\<lparr>hiddenTasks := filter (\<lambda>i. i \<noteq> taskId) (hiddenTasks st2)\<rparr>
                in \<lparr>final = st3, emitted = [RequestStateUpdate], failure = None\<rparr>)))"

text \<open>The whole of \<^verbatim>\<open>removeTask\<close>, with nothing else running while it awaits.\<close>

definition removeTask :: "MgtTodo \<Rightarrow> string \<Rightarrow> unit response \<Rightarrow> (MgtTodo, effect) run" where
  "removeTask st taskId resp =
     (let b = removeTask_begin st taskId
      in case failure b of
           Some e \<Rightarrow> b
         | None \<Rightarrow>
             (let r = removeTask_resume (final b) taskId resp
              in r\<lparr>emitted := emitted b @ emitted r\<rparr>))"

text \<open>
  \<^verbatim>\<open>addTask\<close>. The \<^verbatim>\<open>finally\<close> block runs on every way out of the \<^verbatim>\<open>try\<close>: after the task
  was put in front, after a rejected call, and after a \<^verbatim>\<open>TypeError\<close> of the block itself.
\<close>

definition addTask_finally ::
  "MgtTodo \<Rightarrow> effect list \<Rightarrow> error option \<Rightarrow> (MgtTodo, effect) run" where
  "addTask_finally st calls err =
     \<lparr>final = hideNewTaskPanel (st\<lparr>newTaskBeingAdded := False\<rparr>),
      emitted = calls @ [RequestStateUpdate],
      failure = err\<rparr>"

definition addTask :: "MgtTodo \<Rightarrow> TodoTask response \<Rightarrow> (MgtTodo, effect) run" where
  "addTask st resp =
     (if newTaskBeingAdded st \<or> newTaskName st = []
      then \<lparr>final = st, emitted = [], failure = None\<rparr>
      else
        (let st1 = st\<lparr>newTaskBeingAdded := True\<rparr>
         in case currentList st1 of
              None \<Rightarrow> addTask_finally st1 [] (Some TypeError)
            | Some l \<Rightarrow>
                (let call = CreateTodoTask (list_id l) (newTaskName st1)
                 in case resp of
                      Inl e \<Rightarrow> addTask_finally st1 [call] (Some e)
                    | Inr t \<Rightarrow>
                        (let (task, st2) = alloc st1 t
                         in case tasks st2 of
                              None \<Rightarrow> addTask_finally st2 [call] (Some TypeError)
                            | Some ts \<Rightarrow>
                                addTask_finally (st2\<lparr>tasks := Some (task # ts)\<rparr>) [call] None))))"

text \<open>
  \<^verbatim>\<open>handleTaskCheckClick\<close>. The promise of \<^verbatim>\<open>updateTaskStatus\<close> is not awaited: the handler
  runs it up to its \<^verbatim>\<open>await\<close>, a rejection stays in the promise, and the handler goes on
  to stop the event.
\<close>

definition handleTaskCheckClick :: "MgtTodo \<Rightarrow> Event \<Rightarrow> ref \<Rightarrow> MgtTodo \<times> Event \<times> effect list" where
  "handleTaskCheckClick st e task =
     (if \<not> readOnly st
      then
        (let b = (if TaskStatus_lookup (status (heap st task)) = TaskStatus_value completed
                  then updateTaskStatus_begin st task notStarted
                  else updateTaskStatus_begin st task completed)
         in (final b, e\<lparr>propagationStopped := True, defaultPrevented := True\<rparr>, emitted b))
      else (st, e, []))"

text \<open>\<^verbatim>\<open>handleTaskClick\<close>, the click listener of the row's \<^verbatim>\<open>TaskContent\<close>.\<close>

definition handleTaskClick :: "MgtTodo \<Rightarrow> Event \<Rightarrow> ref \<Rightarrow> MgtTodo \<times> Event \<times> effect list" where
  "handleTaskClick st e task =
     (st, e\<lparr>propagationStopped := True, defaultPrevented := True\<rparr>,
      [FireCustomEvent ''taskClick'' task])"

text \<open>
  A click on the check of a row, as \<^verbatim>\<open>renderTask\<close> binds the listeners: the check's
  container carries \<^verbatim>\<open>handleTaskCheckClick\<close> and lies inside \<^verbatim>\<open>TaskContent\<close>, which carries
  \<^verbatim>\<open>handleTaskClick\<close>. The browser makes the event, hands it to the listener of the check
  and, unless that stopped its propagation, to the listener of the enclosing element.
\<close>

definition click_TaskCheck :: "MgtTodo \<Rightarrow> ref \<Rightarrow> MgtTodo \<times> Event \<times> effect list" where
  "click_TaskCheck st task =
     (let (st1, e1, calls1) =
            handleTaskCheckClick st \<lparr>propagationStopped = False, defaultPrevented = False\<rparr> task
      in if propagationStopped e1 then (st1, e1, calls1)
         else (let (st2, e2, calls2) = handleTaskClick st1 e1 task
               in (st2, e2, calls1 @ calls2)))"

section \<open>The base class of the task components\<close>

text \<open>
  The fields of \<^verbatim>\<open>MgtTasksBase\<close>; the prefix keeps them apart from those of \<^verbatim>\<open>MgtTodo\<close>.
\<close>

record MgtTasksBase =
  base_readOnly :: bool
  base_hideHeader :: bool
  base_hideOptions :: bool
  isNewTaskBeingAdded :: bool
  base_isNewTaskVisible :: bool
  base_newTaskName :: string

datatype base_effect = RequestUpdate | CreateNewTask

definition clearNewTaskData :: "MgtTasksBase \<Rightarrow> MgtTasksBase" where
  "clearNewTaskData st = st\<lparr>base_newTaskName := []\<rparr>"

definition clearState :: "MgtTasksBase \<Rightarrow> MgtTasksBase" where
  "clearState st = (clearNewTaskData st)\<lparr>base_isNewTaskVisible := False\<rparr>"

definition base_set_isNewTaskVisible :: "MgtTasksBase \<Rightarrow> bool \<Rightarrow> MgtTasksBase" where
  "base_set_isNewTaskVisible st v =
     (if v \<noteq> base_isNewTaskVisible st
      then (let st1 = st\<lparr>base_isNewTaskVisible := v\<rparr>
            in if \<not> v then clearNewTaskData st1 else st1)
      else st)"

text \<open>
  \<^verbatim>\<open>addTask\<close> of the base class. \<^verbatim>\<open>createNewTask\<close> is abstract: the subclass's method is an
  argument, taking the state to the state it leaves and to its rejection, if any.
\<close>

definition base_addTask ::
  "(MgtTasksBase \<Rightarrow> MgtTasksBase \<times> error option) \<Rightarrow> MgtTasksBase \<Rightarrow> (MgtTasksBase, base_effect) run" where
  "base_addTask createNewTask st =
     (if isNewTaskBeingAdded st \<or> base_newTaskName st = []
      then \<lparr>final = st, emitted = [], failure = None\<rparr>
      else
        (let st1 = st\<lparr>isNewTaskBeingAdded := True\<rparr>;
             (st2, err) = createNewTask st1;
             st3 = st2\<lparr>isNewTaskBeingAdded := False\<rparr>;
             st4 = base_set_isNewTaskVisible st3 False
         in \<lparr>final = st4, emitted = [RequestUpdate, CreateNewTask, RequestUpdate], failure = err\<rparr>))"

text \<open>\<^verbatim>\<open>MgtPlanner.createNewTask\<close> does nothing.\<close>

definition MgtPlanner_createNewTask :: "MgtTasksBase \<Rightarrow> MgtTasksBase \<times> error option" where
  "MgtPlanner_createNewTask st = (st, None)"

section \<open>The planner gateway\<close>

text \<open>
  A request as the fluent client builds it: \<^verbatim>\<open>api\<close> names the resource, \<^verbatim>\<open>header\<close> sets a
  header, \<^verbatim>\<open>middlewareOptions\<close> attaches the options \<^verbatim>\<open>prepScopes\<close> makes of a scope, and the
  verb sends it. A planner task is the list of its properties; a body is the object or the
  text \<^verbatim>\<open>JSON.stringify\<close> makes of it.
\<close>

datatype http_method = GET | POST | PATCH | DELETE

type_synonym PlannerTask = "(string \<times> string) list"

datatype body = Object PlannerTask | Stringified PlannerTask

datatype middleware_option = AuthenticationHandlerOptions "string list"

record Builder =
  resource :: string
  headers :: "(string \<times> string) list"
  options :: "middleware_option list"

record Request = Builder +
  verb :: http_method
  content :: "body option"

definition api :: "string \<Rightarrow> Builder" where
  "api path = \<lparr>resource = path, headers = [], options = []\<rparr>"

definition header :: "string \<Rightarrow> string \<Rightarrow> Builder \<Rightarrow> Builder" where
  "header k v b = b\<lparr>headers := AList.update k v (headers b)\<rparr>"

definition prepScopes :: "string \<Rightarrow> middleware_option list" where
  "prepScopes scope = [AuthenticationHandlerOptions [scope]]"

definition middlewareOptions :: "middleware_option list \<Rightarrow> Builder \<Rightarrow> Builder" where
  "middlewareOptions os b = b\<lparr>options := os\<rparr>"

definition send :: "http_method \<Rightarrow> body option \<Rightarrow> Builder \<Rightarrow> Request" where
  "send m c b = \<lparr>resource = resource b, headers = headers b, options = options b, verb = m, content = c\<rparr>"

definition deletePlannerTask :: "string \<Rightarrow> Request" where
  "deletePlannerTask taskId =
     send DELETE None
       (middlewareOptions (prepScopes ''Group.ReadWrite.All'')
         (header ''Cache-Control'' ''no-store'' (api (''/planner/tasks/'' @ taskId))))"

definition createPlannerTask :: "PlannerTask \<Rightarrow> Request" where
  "createPlannerTask taskData =
     send POST (Some (Object taskData))
       (middlewareOptions (prepScopes ''Group.ReadWrite.All'')
         (header ''Cache-Control'' ''no-store'' (api ''/planner/tasks'')))"

definition updatePlannerTask :: "string \<Rightarrow> PlannerTask \<Rightarrow> Request" where
  "updatePlannerTask taskId details =
     send PATCH (Some (Stringified details))
       (middlewareOptions (prepScopes ''Group.ReadWrite.All'')
         (header ''Cache-Control'' ''no-store'' (api (''/planner/tasks/'' @ taskId))))"

definition assignPeopleToTask :: "string \<Rightarrow> string \<Rightarrow> Request" where
  "assignPeopleToTask taskId people = updatePlannerTask taskId [(''assignments'', people)]"

definition getPlannerPlan :: "string \<Rightarrow> Request" where
  "getPlannerPlan planId =
     send GET None
       (middlewareOptions (prepScopes ''Group.Read.All'')
         (header ''Cache-Control'' ''no-store'' (api (''/planner/plans/'' @ planId))))"

definition getMyPlannerPlans :: "Request" where
  "getMyPlannerPlans =
     send GET None
       (middlewareOptions (prepScopes ''Group.Read.All'')
         (header ''Cache-Control'' ''no-store'' (api ''/me/planner/plans'')))"

definition getPlannerBucket :: "string \<Rightarrow> string \<Rightarrow> Request" where
  "getPlannerBucket planId bucketId =
     send GET None
       (middlewareOptions (prepScopes ''Group.Read.All'')
         (header ''Cache-Control'' ''no-store''
           (api (''/planner/plans/'' @ planId @ ''/buckets/'' @ bucketId))))"

definition getPlannerBuckets :: "string \<Rightarrow> Request" where
  "getPlannerBuckets planId =
     send GET None
       (middlewareOptions (prepScopes ''Group.Read.All'')
         (header ''Cache-Control'' ''no-store'' (api (''/planner/plans/'' @ planId @ ''/buckets''))))"

definition getPlannerTasks :: "string \<Rightarrow> Request" where
  "getPlannerTasks bucketId =
     send GET None
       (middlewareOptions (prepScopes ''Group.Read.All'')
         (header ''Cache-Control'' ''no-store'' (api (''/planner/buckets/'' @ bucketId @ ''/tasks''))))"

text \<open>The operations of the gateway, each with its arguments, and the request each sends.\<close>

datatype gateway_call =
    DeletePlannerTask string
  | CreatePlannerTask PlannerTask
  | AssignPeopleToTask string string
  | UpdatePlannerTask string PlannerTask
  | GetPlannerPlan string
  | GetMyPlannerPlans
  | GetPlannerBucket string string
  | GetPlannerBuckets string
  | GetPlannerTasks string

fun request_of :: "gateway_call \<Rightarrow> Request" where
  "request_of (DeletePlannerTask taskId) = deletePlannerTask taskId"
| "request_of (CreatePlannerTask taskData) = createPlannerTask taskData"
| "request_of (AssignPeopleToTask taskId people) = assignPeopleToTask taskId people"
| "request_of (UpdatePlannerTask taskId details) = updatePlannerTask taskId details"
| "request_of (GetPlannerPlan planId) = getPlannerPlan planId"
| "request_of GetMyPlannerPlans = getMyPlannerPlans"
| "request_of (GetPlannerBucket planId bucketId) = getPlannerBucket planId bucketId"
| "request_of (GetPlannerBuckets planId) = getPlannerBuckets planId"
| "request_of (GetPlannerTasks bucketId) = getPlannerTasks bucketId"

section \<open>Auxiliary notions and example states\<close>


text \<open>Every reference of the task array was handed out by the store.\<close>

definition refs_allocated :: "MgtTodo \<Rightarrow> bool" where
  "refs_allocated st \<longleftrightarrow>
     (case tasks st of None \<Rightarrow> True | Some ts \<Rightarrow> list_all (\<lambda>r. r < nextRef st) ts)"

text \<open>
  A component showing the list \<open>L\<close> with two tasks: \<open>1\<close>, not started, and \<open>2\<close>, completed,
  both as the gateway delivered them.
\<close>

definition example_list :: TodoTaskList where
  "example_list = \<lparr>list_id = ''L'', displayName = ''Tasks''\<rparr>"

definition example_heap :: "ref \<Rightarrow> TodoTask" where
  "example_heap =
     (heap MgtTodo_new)
       (0 := \<lparr>task_id = ''1'', title = ''Buy milk'', status = JString ''notStarted'',
               dueDateTime = None\<rparr>,
        1 := \<lparr>task_id = ''2'', title = ''Pay rent'', status = JString ''completed'',
               dueDateTime = None\<rparr>)"

definition example_todo :: MgtTodo where
  "example_todo =
     MgtTodo_new\<lparr>tasks := Some [0, 1], currentList := Some example_list,
                 todoLists := [example_list], heap := example_heap, nextRef := 2\<rparr>"

definition example_event :: Event where
  "example_event = \<lparr>propagationStopped = False, defaultPrevented = False\<rparr>"

text \<open>The state after a click on the check of task \<open>2\<close>, its update still awaited.\<close>

definition example_pending :: MgtTodo where
  "example_pending = fst (handleTaskCheckClick example_todo example_event 1)"

text \<open>The new-task panel open with a title typed, and the task the gateway returns for it.\<close>

definition example_draft :: MgtTodo where
  "example_draft = example_todo\<lparr>isNewTaskVisible := Some True, newTaskName := ''Buy milk'',
     newTaskDueDate := Some ''2020-05-01T17:00''\<rparr>"

definition example_created :: TodoTask where
  "example_created =
     \<lparr>task_id = ''42'', title = ''Buy milk'', status = JString ''notStarted'', dueDateTime = None\<rparr>"

definition example_updated :: TodoTask where
  "example_updated =
     \<lparr>task_id = ''1'', title = ''Buy milk'', status = JString ''completed'', dueDateTime = None\<rparr>"



text \<open>The state after a click on the check of task \<open>1\<close>, its update still awaited.\<close>

definition example_clicked :: MgtTodo where
  "example_clicked = fst (handleTaskCheckClick example_todo example_event 0)"

text \<open>The draft typed after a list load that the gateway rejected: the task array is \<^verbatim>\<open>null\<close>.\<close>

definition example_unloaded :: MgtTodo where
  "example_unloaded =
     loadTaskList_resume (loadTaskList_begin example_draft example_list) (Inl GatewayError)"

text \<open>
  The deletion of task \<open>1\<close> sent and still awaited when the user chooses another list, whose
  tasks are being loaded.
\<close>

definition example_other_list :: TodoTaskList where
  "example_other_list = \<lparr>list_id = ''M'', displayName = ''Work''\<rparr>"

definition example_switched :: MgtTodo where
  "example_switched =
     loadTaskList_begin (final (removeTask_begin example_todo ''1'')) example_other_list"

definition example_read_only :: MgtTodo where
  "example_read_only = example_todo\<lparr>readOnly := True\<rparr>"

definition example_base :: MgtTasksBase where
  "example_base = \<lparr>base_readOnly = False, base_hideHeader = False, base_hideOptions = False,
     isNewTaskBeingAdded = False, base_isNewTaskVisible = True, base_newTaskName = []\<rparr>"

section \<open>Properties\<close>

lemmas example_defs =
  example_todo_def example_heap_def example_list_def example_event_def MgtTodo_new_def

lemmas update_defs =
  updateTaskStatus_def updateTaskStatus_begin_def updateTaskStatus_resume_def
  alloc_def array_store_def TaskStatus_value_def

lemmas remove_defs = removeTask_def removeTask_begin_def removeTask_resume_def

lemma example_pending_eq:
  "example_pending = example_todo\<lparr>loadingTasks := [''2''],
      heap := example_heap(1 := \<lparr>task_id = ''2'', title = ''Pay rent'', status = JNumber 0,
                                  dueDateTime = None\<rparr>)\<rparr>"
  by (simp add: example_pending_def handleTaskCheckClick_def update_defs example_defs Let_def
      TaskStatus_property_def)

subsection \<open>A status update that fails\<close>

text \<open>
  C1, as stated, fails on the example: the update of task \<open>1\<close> to completed is rejected by the
  gateway, and afterwards the task holds the status the toggle wrote, not the one it had,
  and its id is still in the loading list.
\<close>

theorem toggle_failure_not_reverted:
  "status (heap (final (updateTaskStatus example_todo 0 completed (Inl GatewayError))) 0)
     \<noteq> status (heap example_todo 0)
   \<and> ''1'' \<in> set (loadingTasks (final (updateTaskStatus example_todo 0 completed (Inl GatewayError))))"
  by (simp add: update_defs example_defs Let_def)

text \<open>
  C1, amended: for every status update whose gateway call fails, the rejection restores
  nothing. The operation writes the requested status into the task before the call, and
  the rejection leaves the component exactly in the state in which it arrived, with no
  further call. When nothing else ran while the call was awaited, the task's status after
  the operation is therefore the requested status, not the earlier one.
\<close>

theorem toggle_failure_restores_nothing:
  "updateTaskStatus_resume arrived (Inl e) = \<lparr>final = arrived, emitted = [], failure = Some e\<rparr>
   \<and> status (heap (final (updateTaskStatus_begin st task taskStatus)) task)
       = TaskStatus_value taskStatus
   \<and> status (heap (final (updateTaskStatus st task taskStatus (Inl e))) task)
       = TaskStatus_value taskStatus"
  by (simp add: update_defs Let_def split: option.splits)

text \<open>
  C2 on the failing path: from a state with no pending marker, a rejected update leaves the
  id of task \<open>1\<close> in the loading list, and a rejected deletion leaves it in the hidden list;
  each call had been sent.
\<close>

theorem pending_marker_left_after_failure:
  "loadingTasks example_todo = []
   \<and> loadingTasks (final (updateTaskStatus example_todo 0 completed (Inl GatewayError))) = [''1'']
   \<and> emitted (updateTaskStatus example_todo 0 completed (Inl GatewayError))
       = [UpdateTodoTask ''L'' ''1''
            \<lparr>task_id = ''1'', title = ''Buy milk'', status = JNumber 2, dueDateTime = None\<rparr>]
   \<and> hiddenTasks example_todo = []
   \<and> hiddenTasks (final (removeTask example_todo ''1'' (Inl GatewayError))) = [''1'']
   \<and> emitted (removeTask example_todo ''1'' (Inl GatewayError)) = [DeleteTodoTask ''L'' ''1'']"
  by (simp add: update_defs remove_defs example_defs Let_def)

subsection \<open>A second click while an update is awaited\<close>

text \<open>
  C3, as stated, fails on the example: task \<open>2\<close> is in the loading list, and a second click
  on its check changes its status, sends another update and adds its id once more.
\<close>

theorem second_toggle_while_pending_runs:
  "''2'' \<in> set (loadingTasks example_pending)
   \<and> status (heap (fst (handleTaskCheckClick example_pending example_event 1)) 1)
        \<noteq> status (heap example_pending 1)
   \<and> snd (snd (handleTaskCheckClick example_pending example_event 1))
        = [UpdateTodoTask ''L'' ''2''
             \<lparr>task_id = ''2'', title = ''Pay rent'', status = JNumber 2, dueDateTime = None\<rparr>]
   \<and> loadingTasks (fst (handleTaskCheckClick example_pending example_event 1)) = [''2'', ''2'']"
  by (simp add: example_pending_eq handleTaskCheckClick_def update_defs example_defs Let_def
      TaskStatus_property_def)

text \<open>
  C3, amended: a click on the check of a task whose id is already in the loading list is
  handled like any other click. When the component is not read-only and a list is
  selected, the id is appended to the loading list once more, the requested status is
  written into the task, and an update carrying it is sent to the gateway.
\<close>

theorem toggle_while_pending_is_not_gated:
  assumes "\<not> readOnly st"
    and "task_id (heap st task) \<in> set (loadingTasks st)"
    and "currentList st = Some l"
  shows "loadingTasks (fst (handleTaskCheckClick st e task))
           = loadingTasks st @ [task_id (heap st task)]
     \<and> (\<exists>requested.
           status (heap (fst (handleTaskCheckClick st e task)) task) = TaskStatus_value requested
         \<and> snd (snd (handleTaskCheckClick st e task))
             = [UpdateTodoTask (list_id l) (task_id (heap st task))
                  ((heap st task)\<lparr>status := TaskStatus_value requested\<rparr>)])"
  using assms by (auto simp add: handleTaskCheckClick_def updateTaskStatus_begin_def Let_def)

theorem toggle_while_pending_is_not_gated_witness:
  "\<not> readOnly example_pending
   \<and> task_id (heap example_pending 1) \<in> set (loadingTasks example_pending)
   \<and> currentList example_pending = Some example_list
   \<and> loadingTasks (fst (handleTaskCheckClick example_pending example_event 1)) = [''2'', ''2'']
   \<and> (\<exists>requested.
           status (heap (fst (handleTaskCheckClick example_pending example_event 1)) 1)
             = TaskStatus_value requested
         \<and> snd (snd (handleTaskCheckClick example_pending example_event 1))
             = [UpdateTodoTask ''L'' ''2''
                  \<lparr>task_id = ''2'', title = ''Pay rent'', status = TaskStatus_value requested,
                    dueDateTime = None\<rparr>])"
proof -
  have a: "\<not> readOnly example_pending"
    by (simp add: example_pending_eq example_defs)
  have b: "task_id (heap example_pending 1) \<in> set (loadingTasks example_pending)"
    by (simp add: example_pending_eq example_defs)
  have c: "currentList example_pending = Some example_list"
    by (simp add: example_pending_eq example_defs)
  show ?thesis
    using a b c toggle_while_pending_is_not_gated [OF a b c, of example_event]
    by (simp add: example_pending_eq example_defs)
qed

subsection \<open>Submitting the new task\<close>

text \<open>
  C4: when the title of the new task is empty, or a submission is still under way,
  \<^verbatim>\<open>addTask\<close> makes no call and leaves the component as it is. This holds for the To-Do
  component and for the base class of the task components.
\<close>

theorem addTask_rejected_is_noop:
  "(newTaskName st = [] \<or> newTaskBeingAdded st
      \<longrightarrow> addTask st resp = \<lparr>final = st, emitted = [], failure = None\<rparr>)
   \<and> (base_newTaskName b = [] \<or> isNewTaskBeingAdded b
      \<longrightarrow> base_addTask createNewTask b = \<lparr>final = b, emitted = [], failure = None\<rparr>)"
  by (auto simp add: addTask_def base_addTask_def)

theorem addTask_rejected_is_noop_witness:
  "newTaskName (example_todo\<lparr>isNewTaskVisible := Some True\<rparr>) = []
   \<and> addTask (example_todo\<lparr>isNewTaskVisible := Some True\<rparr>) (Inr example_created)
       = \<lparr>final = example_todo\<lparr>isNewTaskVisible := Some True\<rparr>, emitted = [], failure = None\<rparr>
   \<and> newTaskBeingAdded (example_draft\<lparr>newTaskBeingAdded := True\<rparr>)
   \<and> addTask (example_draft\<lparr>newTaskBeingAdded := True\<rparr>) (Inr example_created)
       = \<lparr>final = example_draft\<lparr>newTaskBeingAdded := True\<rparr>, emitted = [], failure = None\<rparr>
   \<and> base_newTaskName example_base = []
   \<and> base_addTask MgtPlanner_createNewTask example_base
       = \<lparr>final = example_base, emitted = [], failure = None\<rparr>
   \<and> isNewTaskBeingAdded (example_base\<lparr>isNewTaskBeingAdded := True, base_newTaskName := ''Buy milk''\<rparr>)
   \<and> base_addTask MgtPlanner_createNewTask
         (example_base\<lparr>isNewTaskBeingAdded := True, base_newTaskName := ''Buy milk''\<rparr>)
       = \<lparr>final = example_base\<lparr>isNewTaskBeingAdded := True, base_newTaskName := ''Buy milk''\<rparr>,
          emitted = [], failure = None\<rparr>"
  using addTask_rejected_is_noop [of "example_todo\<lparr>isNewTaskVisible := Some True\<rparr>" "Inr example_created"
          example_base MgtPlanner_createNewTask]
        addTask_rejected_is_noop [of "example_draft\<lparr>newTaskBeingAdded := True\<rparr>" "Inr example_created"
          "example_base\<lparr>isNewTaskBeingAdded := True, base_newTaskName := ''Buy milk''\<rparr>"
          MgtPlanner_createNewTask]
  by (simp add: example_defs example_base_def example_draft_def)

text \<open>
  C5 fails while the task array is \<^verbatim>\<open>null\<close>: with a title typed and no submission under
  way, the gateway creates the task and returns it, but \<^verbatim>\<open>unshift\<close> on \<^verbatim>\<open>null\<close> throws; the
  returned task is not put in front of any list and the operation is rejected.
\<close>

theorem created_task_not_added_while_unloaded:
  "newTaskName example_unloaded = ''Buy milk''
   \<and> \<not> newTaskBeingAdded example_unloaded
   \<and> currentList example_unloaded = Some example_list
   \<and> tasks example_unloaded = None
   \<and> emitted (addTask example_unloaded (Inr example_created))
       = [CreateTodoTask ''L'' ''Buy milk'', RequestStateUpdate]
   \<and> failure (addTask example_unloaded (Inr example_created)) = Some TypeError
   \<and> tasks (final (addTask example_unloaded (Inr example_created))) = None"
  by (simp add: example_unloaded_def loadTaskList_resume_def loadTaskList_begin_def
      example_draft_def example_defs addTask_def addTask_finally_def hideNewTaskPanel_def
      alloc_def Let_def)

text \<open>
  What \<^verbatim>\<open>addTask\<close> does do: when the title is not empty and no submission is under way, it
  ends with the title empty, the due date \<^verbatim>\<open>null\<close>, the panel closed and the submission
  flag down, whatever the gateway answered. When a list is selected, the task array is
  loaded and the gateway returns a task, that task is a new object put in front of the
  array; the elements that were there follow in their order, and no other object of the
  store changes.
\<close>

theorem addTask_accepted:
  assumes "newTaskName st \<noteq> []" and "\<not> newTaskBeingAdded st"
  shows "newTaskName (final (addTask st resp)) = []
     \<and> newTaskDueDate (final (addTask st resp)) = None
     \<and> isNewTaskVisible (final (addTask st resp)) = Some False
     \<and> \<not> newTaskBeingAdded (final (addTask st resp))
     \<and> (\<forall>l ts t. currentList st = Some l \<and> tasks st = Some ts \<and> resp = Inr t \<longrightarrow>
           emitted (addTask st resp) = [CreateTodoTask (list_id l) (newTaskName st), RequestStateUpdate]
         \<and> failure (addTask st resp) = None
         \<and> tasks (final (addTask st resp)) = Some (nextRef st # ts)
         \<and> heap (final (addTask st resp)) (nextRef st) = t
         \<and> (\<forall>r. r \<noteq> nextRef st \<longrightarrow> heap (final (addTask st resp)) r = heap st r))"
  using assms
  by (auto simp add: addTask_def addTask_finally_def hideNewTaskPanel_def alloc_def Let_def
      split: option.splits sum.splits)

theorem addTask_accepted_witness:
  "newTaskName example_draft \<noteq> [] \<and> \<not> newTaskBeingAdded example_draft
   \<and> currentList example_draft = Some example_list \<and> tasks example_draft = Some [0, 1]
   \<and> nextRef example_draft = 2
   \<and> emitted (addTask example_draft (Inr example_created))
        = [CreateTodoTask ''L'' ''Buy milk'', RequestStateUpdate]
   \<and> tasks (final (addTask example_draft (Inr example_created))) = Some [2, 0, 1]
   \<and> heap (final (addTask example_draft (Inr example_created))) 2 = example_created
   \<and> heap (final (addTask example_draft (Inr example_created))) 0 = heap example_draft 0
   \<and> newTaskName (final (addTask example_draft (Inr example_created))) = []
   \<and> newTaskDueDate (final (addTask example_draft (Inr example_created))) = None
   \<and> isNewTaskVisible (final (addTask example_draft (Inr example_created))) = Some False
   \<and> newTaskName (final (addTask example_draft (Inl GatewayError))) = []
   \<and> newTaskDueDate (final (addTask example_draft (Inl GatewayError))) = None
   \<and> isNewTaskVisible (final (addTask example_draft (Inl GatewayError))) = Some False"
proof -
  have a: "newTaskName example_draft \<noteq> []" by (simp add: example_draft_def)
  have b: "\<not> newTaskBeingAdded example_draft" by (simp add: example_draft_def example_defs)
  have c: "currentList example_draft = Some example_list \<and> tasks example_draft = Some [0, 1]
           \<and> nextRef example_draft = 2"
    by (simp add: example_draft_def example_defs)
  show ?thesis
    using a b c addTask_accepted [OF a b, of "Inr example_created"]
      addTask_accepted [OF a b, of "Inl GatewayError"]
    by (simp add: example_list_def example_draft_def)
qed

subsection \<open>The rendered rows\<close>



subsection \<open>Removing a task\<close>

text \<open>
  C7 fails when the task array is \<^verbatim>\<open>null\<close> at the time the answer arrives: the deletion of
  task \<open>1\<close> was sent, the user chose another list, and the gateway accepts the deletion
  while that list loads. \<^verbatim>\<open>this._tasks.filter\<close> throws, and the id stays in the hidden list,
  also after the load has ended.
\<close>

theorem accepted_delete_leaves_hidden_while_unloaded:
  "emitted (removeTask_begin example_todo ''1'') = [DeleteTodoTask ''L'' ''1'']
   \<and> failure (removeTask_begin example_todo ''1'') = None
   \<and> tasks example_switched = None
   \<and> failure (removeTask_resume example_switched ''1'' (Inr ())) = Some TypeError
   \<and> hiddenTasks (final (removeTask_resume example_switched ''1'' (Inr ()))) = [''1'']
   \<and> hiddenTasks
        (loadTaskList_resume (final (removeTask_resume example_switched ''1'' (Inr ()))) (Inr []))
       = [''1'']"
  by (simp add: example_switched_def loadTaskList_begin_def loadTaskList_resume_def remove_defs
      example_defs Let_def)

text \<open>
  What \<^verbatim>\<open>removeTask\<close> does do: when the gateway accepts the deletion, with a list selected
  and the task array loaded, the array is left without any task of that id and the hidden
  list without the id; the remaining elements keep their order and no task object changes.
\<close>

theorem removeTask_succeeds:
  assumes "currentList st = Some l" and "tasks st = Some ts"
  shows "failure (removeTask st taskId (Inr ())) = None
     \<and> emitted (removeTask st taskId (Inr ())) = [DeleteTodoTask (list_id l) taskId, RequestStateUpdate]
     \<and> tasks (final (removeTask st taskId (Inr ())))
          = Some (filter (\<lambda>r. task_id (heap st r) \<noteq> taskId) ts)
     \<and> heap (final (removeTask st taskId (Inr ()))) = heap st
     \<and> (\<forall>r \<in> set (filter (\<lambda>r. task_id (heap st r) \<noteq> taskId) ts).
           task_id (heap (final (removeTask st taskId (Inr ()))) r) \<noteq> taskId)
     \<and> taskId \<notin> set (hiddenTasks (final (removeTask st taskId (Inr ()))))"
  using assms by (simp add: remove_defs Let_def)

theorem removeTask_succeeds_witness:
  "currentList example_todo = Some example_list \<and> tasks example_todo = Some [0, 1]
   \<and> failure (removeTask example_todo ''1'' (Inr ())) = None
   \<and> tasks (final (removeTask example_todo ''1'' (Inr ()))) = Some [1]
   \<and> heap (final (removeTask example_todo ''1'' (Inr ()))) = heap example_todo
   \<and> hiddenTasks (final (removeTask example_todo ''1'' (Inr ()))) = []"
proof -
  have a: "currentList example_todo = Some example_list" by (simp add: example_defs)
  have b: "tasks example_todo = Some [0, 1]" by (simp add: example_defs)
  show ?thesis
    using a b removeTask_succeeds [OF a b, of "''1''"]
    by (simp add: remove_defs example_defs)
qed

subsection \<open>The requests of the planner gateway\<close>

text \<open>
  C8: every operation of the planner gateway sends the header \<^verbatim>\<open>Cache-Control: no-store\<close>
  and the options of exactly one scope: \<^verbatim>\<open>Group.Read.All\<close> when it reads (the five
  operations that \<^verbatim>\<open>GET\<close>), \<^verbatim>\<open>Group.ReadWrite.All\<close> when it creates, updates or deletes.
\<close>

theorem gateway_requests:
  "map_of (headers (request_of c)) ''Cache-Control'' = Some ''no-store''
   \<and> options (request_of c)
       = prepScopes (if verb (request_of c) = GET then ''Group.Read.All'' else ''Group.ReadWrite.All'')
   \<and> verb (getPlannerPlan planId) = GET \<and> verb getMyPlannerPlans = GET
   \<and> verb (getPlannerBucket planId bucketId) = GET \<and> verb (getPlannerBuckets planId) = GET
   \<and> verb (getPlannerTasks bucketId) = GET
   \<and> verb (createPlannerTask taskData) = POST
   \<and> verb (updatePlannerTask taskId details) = PATCH
   \<and> verb (assignPeopleToTask taskId people) = PATCH
   \<and> verb (deletePlannerTask taskId) = DELETE"
  by (cases c)
    (simp_all add: deletePlannerTask_def createPlannerTask_def updatePlannerTask_def
      assignPeopleToTask_def getPlannerPlan_def getMyPlannerPlans_def getPlannerBucket_def
      getPlannerBuckets_def getPlannerTasks_def send_def middlewareOptions_def header_def api_def)

subsection \<open>The click on a task's check\<close>

text \<open>
  C9 fails for a task whose status is \<^verbatim>\<open>TaskStatus.completed\<close> as the component itself
  writes it: after a click on the check of task \<open>1\<close> the status property holds the number of
  \<open>completed\<close>, the lookup of a number gives a name, which is not that number, and the next
  click asks for \<open>completed\<close> again instead of \<open>notStarted\<close>.
\<close>

theorem completed_number_toggles_to_completed:
  "\<not> readOnly example_clicked
   \<and> status (heap example_clicked 0) = TaskStatus_value completed
   \<and> status (heap (fst (handleTaskCheckClick example_clicked example_event 0)) 0)
       = TaskStatus_value completed
   \<and> status (heap (fst (handleTaskCheckClick example_clicked example_event 0)) 0)
       \<noteq> TaskStatus_value notStarted
   \<and> snd (snd (handleTaskCheckClick example_clicked example_event 0))
       = [UpdateTodoTask ''L'' ''1''
            \<lparr>task_id = ''1'', title = ''Buy milk'', status = TaskStatus_value completed,
              dueDateTime = None\<rparr>]"
  by (simp add: example_clicked_def handleTaskCheckClick_def updateTaskStatus_begin_def
      example_defs TaskStatus_value_def TaskStatus_property_def Let_def)

text \<open>
  A status the component wrote itself is never read as completed, whichever member it is.
\<close>

lemma written_status_not_read_as_completed:
  "TaskStatus_lookup (TaskStatus_value s) \<noteq> TaskStatus_value completed"
  by (cases s) (simp_all add: TaskStatus_value_def TaskStatus_property_def)

text \<open>
  What the click does do, when the component is not read-only: for the status names the
  gateway delivers it asks for \<open>notStarted\<close> if the name is \<open>completed\<close>, and for \<open>completed\<close>
  if it is \<open>notStarted\<close>, \<open>inProgress\<close>, \<open>deferred\<close> or \<open>waitingOnOthers\<close>. Whatever the status
  property held, the status asked for is one of \<open>notStarted\<close> and \<open>completed\<close>; it is written
  into the task and, when a list is selected, sent to the gateway.
\<close>

theorem check_click_toggles:
  assumes "\<not> readOnly st"
  shows "(status (heap st task) = JString ''completed'' \<longrightarrow>
            status (heap (fst (handleTaskCheckClick st e task)) task) = TaskStatus_value notStarted)
     \<and> (status (heap st task) \<in> {JString ''notStarted'', JString ''inProgress'',
                                    JString ''deferred'', JString ''waitingOnOthers''} \<longrightarrow>
            status (heap (fst (handleTaskCheckClick st e task)) task) = TaskStatus_value completed)
     \<and> status (heap (fst (handleTaskCheckClick st e task)) task)
          \<in> {TaskStatus_value notStarted, TaskStatus_value completed}
     \<and> (\<forall>l. currentList st = Some l \<longrightarrow>
            snd (snd (handleTaskCheckClick st e task))
              = [UpdateTodoTask (list_id l) (task_id (heap st task))
                   (heap (fst (handleTaskCheckClick st e task)) task)])"
  using assms
  by (auto simp add: handleTaskCheckClick_def updateTaskStatus_begin_def Let_def
      TaskStatus_property_def TaskStatus_value_def split: option.splits)

theorem check_click_toggles_witness:
  "\<not> readOnly example_todo
   \<and> status (heap example_todo 1) = JString ''completed''
   \<and> status (heap (fst (handleTaskCheckClick example_todo example_event 1)) 1) = JNumber 0
   \<and> status (heap example_todo 0) = JString ''notStarted''
   \<and> status (heap (fst (handleTaskCheckClick example_todo example_event 0)) 0) = JNumber 2
   \<and> snd (snd (handleTaskCheckClick example_todo example_event 0))
       = [UpdateTodoTask ''L'' ''1''
            \<lparr>task_id = ''1'', title = ''Buy milk'', status = JNumber 2, dueDateTime = None\<rparr>]"
proof -
  have a: "\<not> readOnly example_todo" by (simp add: example_defs)
  show ?thesis
    using a check_click_toggles [OF a, of 1 example_event] check_click_toggles [OF a, of 0 example_event]
    by (simp add: example_defs TaskStatus_value_def handleTaskCheckClick_def
        updateTaskStatus_begin_def TaskStatus_property_def Let_def)
qed

text \<open>
  C10, as stated, fails on the example: in the read-only component a click on the check of
  task \<open>1\<close> ends with the event stopped and cancelled, by the listener of the row.
\<close>

theorem read_only_click_is_stopped:
  "readOnly example_read_only
   \<and> propagationStopped (fst (snd (click_TaskCheck example_read_only 0)))
   \<and> defaultPrevented (fst (snd (click_TaskCheck example_read_only 0)))"
  by (simp add: example_read_only_def click_TaskCheck_def handleTaskCheckClick_def
      handleTaskClick_def example_defs)

text \<open>
  C10, amended: when the component is read-only, a click on the check of a task changes no
  state and makes no gateway call. \<^verbatim>\<open>handleTaskCheckClick\<close> returns with the state, the
  store and the event as they were; the click then reaches the listener of the row,
  \<^verbatim>\<open>handleTaskClick\<close>, which fires \<^verbatim>\<open>taskClick\<close> and stops and cancels the event.
\<close>

theorem check_click_read_only:
  assumes "readOnly st"
  shows "handleTaskCheckClick st e task = (st, e, [])
     \<and> click_TaskCheck st task
         = (st, \<lparr>propagationStopped = True, defaultPrevented = True\<rparr>,
            [FireCustomEvent ''taskClick'' task])"
  using assms by (simp add: click_TaskCheck_def handleTaskCheckClick_def handleTaskClick_def)

theorem check_click_read_only_witness:
  "readOnly example_read_only
   \<and> handleTaskCheckClick example_read_only example_event 0
       = (example_read_only, example_event, [])
   \<and> click_TaskCheck example_read_only 0
       = (example_read_only, \<lparr>propagationStopped = True, defaultPrevented = True\<rparr>,
          [FireCustomEvent ''taskClick'' 0])"
proof -
  have a: "readOnly example_read_only" by (simp add: example_read_only_def)
  show ?thesis
    using a check_click_read_only [OF a, of example_event 0]
    by simp
qed

subsection \<open>Further properties of the operations\<close>

text \<open>
  A status update the gateway accepts: with a list selected, the task array loaded and the
  returned task carrying the id of the task sent, the update was sent with the requested
  status, the returned task is a new object of the store, and the id is in the loading
  list no more.
\<close>

theorem updateTaskStatus_succeeds:
  assumes "currentList st = Some l" and "tasks st = Some ts"
    and "task_id t = task_id (heap st task)"
  shows "failure (updateTaskStatus st task taskStatus (Inr t)) = None
     \<and> emitted (updateTaskStatus st task taskStatus (Inr t))
         = [UpdateTodoTask (list_id l) (task_id (heap st task))
              ((heap st task)\<lparr>status := TaskStatus_value taskStatus\<rparr>), RequestStateUpdate]
     \<and> task_id (heap st task)
         \<notin> set (loadingTasks (final (updateTaskStatus st task taskStatus (Inr t))))
     \<and> heap (final (updateTaskStatus st task taskStatus (Inr t))) (nextRef st) = t"
  using assms
  by (simp add: update_defs Let_def)

theorem updateTaskStatus_succeeds_witness:
  "currentList example_todo = Some example_list \<and> tasks example_todo = Some [0, 1]
   \<and> task_id example_updated = task_id (heap example_todo 0)
   \<and> loadingTasks (final (updateTaskStatus example_todo 0 completed (Inr example_updated))) = []
   \<and> tasks (final (updateTaskStatus example_todo 0 completed (Inr example_updated))) = Some [2, 1]
   \<and> heap (final (updateTaskStatus example_todo 0 completed (Inr example_updated))) 2
       = example_updated"
proof -
  have a: "currentList example_todo = Some example_list" by (simp add: example_defs)
  have b: "tasks example_todo = Some [0, 1]" by (simp add: example_defs)
  have c: "task_id example_updated = task_id (heap example_todo 0)"
    by (simp add: example_defs example_updated_def)
  show ?thesis
    using a b c updateTaskStatus_succeeds [OF a b c, of completed]
    by (simp add: update_defs example_defs example_updated_def Let_def)
qed

text \<open>
  The references of the task array stay below the next free reference of the store
  through every operation, so a returned task never takes the place of an object in use.
\<close>

lemma alloc_all_refs:
  "alloc_all st ts = (rs, st') \<Longrightarrow>
     nextRef st \<le> nextRef st' \<and> list_all (\<lambda>r. r < nextRef st') rs \<and> tasks st' = tasks st"
proof (induction ts arbitrary: st rs st')
  case Nil
  then show ?case by simp
next
  case (Cons t ts)
  obtain rs1 st1 where r: "alloc_all (snd (alloc st t)) ts = (rs1, st1)"
    by (cases "alloc_all (snd (alloc st t)) ts")
  from Cons.IH [OF r] Cons.prems r show ?case
    by (auto simp add: alloc_def split: prod.splits)
qed

lemma array_store_all: "list_all P xs \<Longrightarrow> P v \<Longrightarrow> list_all P (array_store xs i v)"
  by (auto simp add: array_store_def list_all_iff dest: set_update_subset_insert [THEN subsetD])

lemma list_all_less_Suc: "list_all (\<lambda>r. r < n) xs \<Longrightarrow> list_all (\<lambda>r. r < Suc n) xs"
  by (simp add: list_all_iff less_Suc_eq)

lemma updateTaskStatus_resume_refs:
  assumes "refs_allocated st"
  shows "refs_allocated (final (updateTaskStatus_resume st resp))"
proof (cases resp)
  case (Inl e)
  with assms show ?thesis by (simp add: updateTaskStatus_resume_def)
next
  case (Inr t)
  show ?thesis
  proof (cases "tasks st")
    case None
    with Inr show ?thesis
      by (simp add: updateTaskStatus_resume_def alloc_def refs_allocated_def)
  next
    case (Some ts)
    with assms have "list_all (\<lambda>r. r < nextRef st) ts"
      by (simp add: refs_allocated_def)
    then have "list_all (\<lambda>r. r < Suc (nextRef st)) (array_store ts i (nextRef st))" for i
      by (intro array_store_all list_all_less_Suc) simp_all
    with Inr Some show ?thesis
      by (simp add: updateTaskStatus_resume_def alloc_def refs_allocated_def Let_def)
  qed
qed

theorem refs_stay_allocated:
  assumes "refs_allocated st"
  shows "refs_allocated (final (addTask st resp))
     \<and> refs_allocated (final (updateTaskStatus st task taskStatus uresp))
     \<and> refs_allocated (final (removeTask st taskId dresp))
     \<and> refs_allocated (loadTaskList_resume (loadTaskList_begin st l) lresp)"
proof -
  have 1: "refs_allocated (final (addTask st resp))"
    using assms
    by (auto simp add: refs_allocated_def addTask_def addTask_finally_def hideNewTaskPanel_def
        alloc_def Let_def list_all_iff less_Suc_eq split: option.splits sum.splits)
  have "refs_allocated (final (updateTaskStatus_begin st task taskStatus))"
    using assms
    by (simp add: refs_allocated_def updateTaskStatus_begin_def Let_def split: option.splits)
  then have 2: "refs_allocated (final (updateTaskStatus st task taskStatus uresp))"
    using updateTaskStatus_resume_refs [of "final (updateTaskStatus_begin st task taskStatus)" uresp]
    by (simp add: updateTaskStatus_def Let_def split: option.splits)
  have 3: "refs_allocated (final (removeTask st taskId dresp))"
    using assms
    by (auto simp add: refs_allocated_def remove_defs Let_def list_all_iff
        split: option.splits sum.splits)
  have 4: "refs_allocated (loadTaskList_resume (loadTaskList_begin st l) lresp)"
  proof (cases lresp)
    case (Inl e)
    then show ?thesis
      by (simp add: refs_allocated_def loadTaskList_resume_def loadTaskList_begin_def)
  next
    case (Inr ts)
    obtain rs st' where r: "alloc_all (loadTaskList_begin st l) ts = (rs, st')"
      by (cases "alloc_all (loadTaskList_begin st l) ts")
    from alloc_all_refs [OF r] Inr r show ?thesis
      by (simp add: refs_allocated_def loadTaskList_resume_def)
  qed
  from 1 2 3 4 show ?thesis by simp
qed

theorem refs_stay_allocated_witness:
  "refs_allocated example_todo
   \<and> refs_allocated (final (addTask example_draft (Inr example_created)))
   \<and> refs_allocated (final (updateTaskStatus example_todo 0 completed (Inr example_created)))"
proof -
  have a: "refs_allocated example_todo" by (simp add: refs_allocated_def example_defs)
  have b: "refs_allocated example_draft"
    by (simp add: refs_allocated_def example_draft_def example_defs)
  show ?thesis
    using a refs_stay_allocated [OF b, of "Inr example_created"]
      refs_stay_allocated [OF a, of _ 0 completed "Inr example_created"]
    by simp
qed

end
